theory Spec2Isabelle
  imports Main "HOL-Library.Sublist"
begin

unbundle bit_operations_syntax

section \<open>Build target\<close>

text \<open>
  \<^verbatim>\<open>clone.c\<close> selects its platform code with the preprocessor chain
  \<^verbatim>\<open>#ifdef __DARWIN__ ... #elif defined(__LINUX__) ... #else ...\<close>.
  A build takes exactly one of the three branches; \<open>target\<close> names the branch taken.
\<close>

datatype target = Darwin | Linux | Other

section \<open>Constants of the source\<close>

text \<open>
  \<^verbatim>\<open>PATH_MAX\<close> comes from \<^verbatim>\<open>limits.h\<close>: 1024 in the Darwin SDK, 4096 on Linux;
  the source falls back to 4096 when the header does not define it. No result below depends
  on the value except where it is named.
\<close>

fun PATH_MAX :: "target \<Rightarrow> nat" where
  "PATH_MAX Darwin = 1024"
| "PATH_MAX Linux = 4096"
| "PATH_MAX Other = 4096"

definition ERROR_MSG_BUFFER_SIZE :: nat where
  "ERROR_MSG_BUFFER_SIZE = 256"

definition ARG_ERROR_MSG_SIZE :: nat where
  "ARG_ERROR_MSG_SIZE = 128"

text \<open>\<^verbatim>\<open>#define DEFAULT_FILE_MODE 0644\<close>, an octal literal: rw-r--r--.\<close>

definition DEFAULT_FILE_MODE :: nat where
  "DEFAULT_FILE_MODE = 6 * 8 ^ 2 + 4 * 8 + 4"

text \<open>Linux values of the \<^verbatim>\<open>open(2)\<close> flags and of the errno codes the model produces itself.\<close>

definition O_RDONLY :: int where "O_RDONLY = 0"
definition O_WRONLY :: int where "O_WRONLY = 1"
definition O_CREAT :: int where "O_CREAT = 64"
definition O_TRUNC :: int where "O_TRUNC = 512"

text \<open>\<^verbatim>\<open>_IOW(0x94, 9, int)\<close>\<close>

definition FICLONE :: nat where "FICLONE = 0x40049409"

definition ENOENT :: int where "ENOENT = 2"
definition EIO :: int where "EIO = 5"
definition EBADF :: int where "EBADF = 9"
definition EACCES :: int where "EACCES = 13"
definition EEXIST :: int where "EEXIST = 17"
definition EXDEV :: int where "EXDEV = 18"
definition EMFILE :: int where "EMFILE = 24"
definition ENOTTY :: int where "ENOTTY = 25"
definition EOPNOTSUPP :: int where "EOPNOTSUPP = 95"

section \<open>Host values (Node-API boundary)\<close>

text \<open>The seven callbacks defined in \<^verbatim>\<open>clone.c\<close>; a JavaScript function value wraps one of them.\<close>

datatype native_fn =
    Fn_get_platform
  | Fn_darwin_clonefile | Fn_darwin_is_available | Fn_darwin_supports_directory
  | Fn_linux_ficlone | Fn_linux_is_available | Fn_linux_supports_directory

text \<open>A string value carries the bytes of its UTF-8 encoding.\<close>

datatype js_value =
    JSUndefined | JSNull | JSBoolean bool | JSNumber int | JSString string
  | JSObject | JSFunction native_fn

datatype napi_valuetype =
    napi_undefined | napi_null | napi_boolean | napi_number | napi_string
  | napi_symbol | napi_object | napi_function | napi_external | napi_bigint

datatype napi_status = napi_ok | napi_invalid_arg | napi_string_expected

datatype error_class = JSError | JSTypeError

text \<open>
  A thrown JavaScript error object: its class, its \<open>message\<close>, and the \<open>errno\<close> property
  (present only on errors built by \<open>throw_errno_error\<close>).
\<close>

record js_error =
  err_class :: error_class
  message :: string
  err_errno :: "int option"

datatype js_result = Returned js_value | Thrown js_error

text \<open>
  \<^verbatim>\<open>napi_typeof\<close> on a valid handle always reports \<^verbatim>\<open>napi_ok\<close> and the value's type.
\<close>

fun napi_typeof :: "js_value \<Rightarrow> napi_status \<times> napi_valuetype" where
  "napi_typeof JSUndefined = (napi_ok, napi_undefined)"
| "napi_typeof JSNull = (napi_ok, napi_null)"
| "napi_typeof (JSBoolean b) = (napi_ok, napi_boolean)"
| "napi_typeof (JSNumber n) = (napi_ok, napi_number)"
| "napi_typeof (JSString b) = (napi_ok, napi_string)"
| "napi_typeof JSObject = (napi_ok, napi_object)"
| "napi_typeof (JSFunction f) = (napi_ok, napi_function)"

text \<open>
  \<^verbatim>\<open>napi_get_value_string_utf8(env, value, buf, bufsize, &length)\<close> as Node-API documents it:
  a non-string value gives \<^verbatim>\<open>napi_string_expected\<close>; for a string it copies at most
  \<open>bufsize - 1\<close> bytes, whole characters only, appends the terminator, stores the number of
  bytes copied in \<open>length\<close> and returns \<^verbatim>\<open>napi_ok\<close>: "when this value is insufficient, the
  returned string is truncated and null-terminated".  The model returns the status and the
  bytes copied (whose length is \<open>*length\<close>).

  A byte \<open>10xxxxxx\<close> continues a character; the copy ends at the last character boundary
  that fits.
\<close>

definition is_cont :: "char \<Rightarrow> bool" where
  "is_cont c = (128 \<le> (of_char c :: nat) \<and> (of_char c :: nat) < 192)"

fun char_boundary :: "string \<Rightarrow> nat \<Rightarrow> nat" where
  "char_boundary b 0 = 0"
| "char_boundary b (Suc k) = (if is_cont (b ! Suc k) then char_boundary b k else Suc k)"

definition write_utf8 :: "string \<Rightarrow> nat \<Rightarrow> string" where
  "write_utf8 b cap = (if length b \<le> cap then b else take (char_boundary b cap) b)"

fun napi_get_value_string_utf8 :: "js_value \<Rightarrow> nat \<Rightarrow> napi_status \<times> string" where
  "napi_get_value_string_utf8 (JSString b) bufsize =
     (napi_ok, if bufsize = 0 then [] else write_utf8 b (bufsize - 1))"
| "napi_get_value_string_utf8 v bufsize = (napi_string_expected, [])"

text \<open>\<^verbatim>\<open>snprintf(buf, sz, ...)\<close> keeps at most \<open>sz - 1\<close> bytes of the formatted text.\<close>

definition snprintf :: "nat \<Rightarrow> string \<Rightarrow> string" where
  "snprintf sz text = take (sz - 1) text"

text \<open>The \<^verbatim>\<open>%d\<close> conversion.\<close>

fun show_nat :: "nat \<Rightarrow> string" where
  "show_nat n =
     (if n < 10 then [''0123456789'' ! n]
      else show_nat (n div 10) @ [''0123456789'' ! (n mod 10)])"

declare show_nat.simps [simp del]

definition show_int :: "int \<Rightarrow> string" where
  "show_int i = (if i < 0 then CHR ''-'' # show_nat (nat (- i)) else show_nat (nat i))"

text \<open>A C string ends at its first NUL byte.\<close>

definition c_str :: "string \<Rightarrow> string" where
  "c_str buf = takeWhile (\<lambda>c. c \<noteq> CHR 0x00) buf"

definition napi_throw_error :: "string \<Rightarrow> js_error" where
  "napi_throw_error msg = \<lparr>err_class = JSError, message = c_str msg, err_errno = None\<rparr>"

definition napi_throw_type_error :: "string \<Rightarrow> js_error" where
  "napi_throw_type_error msg = \<lparr>err_class = JSTypeError, message = c_str msg, err_errno = None\<rparr>"

section \<open>Error translation\<close>

text \<open>
  \<^verbatim>\<open>throw_errno_error(env, operation, err)\<close>.  \<open>strerror\<close> belongs to the C library and is a
  parameter.  \<open>err\<close> is a C \<^verbatim>\<open>int\<close>; no arithmetic is done on it.  \<open>operation\<close> and the
  description are C strings, so they hold no NUL byte.
\<close>

definition throw_errno_error :: "(int \<Rightarrow> string) \<Rightarrow> string \<Rightarrow> int \<Rightarrow> js_error" where
  "throw_errno_error strerror operation err =
     \<lparr>err_class = JSError,
      message = snprintf ERROR_MSG_BUFFER_SIZE
        (operation @ '' failed: '' @ strerror err @ '' (errno '' @ show_int err @ '')''),
      err_errno = Some err\<rparr>"

section \<open>Path validation\<close>

text \<open>
  \<^verbatim>\<open>get_string_arg(env, value, buffer, buffer_size, &length, arg_name)\<close>: \<open>Inl\<close> is the error
  thrown (the C function returns false), \<open>Inr\<close> the bytes left in \<open>buffer\<close>, whose number is
  \<open>*length\<close>.
\<close>

definition get_string_arg :: "js_value \<Rightarrow> nat \<Rightarrow> string \<Rightarrow> js_error + string" where
  "get_string_arg v buffer_size arg_name =
     (case napi_typeof v of (status, type) \<Rightarrow>
        if status \<noteq> napi_ok \<or> type \<noteq> napi_string then
          Inl (napi_throw_type_error
                 (snprintf ARG_ERROR_MSG_SIZE (arg_name @ '' must be a string'')))
        else
          (case napi_get_value_string_utf8 v buffer_size of (status, buffer) \<Rightarrow>
             if status \<noteq> napi_ok then
               Inl (napi_throw_error
                      (snprintf ARG_ERROR_MSG_SIZE (''Failed to read '' @ arg_name @ '' string'')))
             else if length buffer = 0 then
               Inl (napi_throw_error
                      (snprintf ARG_ERROR_MSG_SIZE (arg_name @ '' cannot be empty'')))
             else Inr buffer))"

section \<open>Operating system\<close>

type_synonym path = string

datatype syscall =
    Sys_open path int nat
  | Sys_close int
  | Sys_ioctl int nat int
  | Sys_unlink path
  | Sys_clonefile path path int

text \<open>
  The part of the kernel the program touches.  \<open>files\<close> maps the path of each regular file to
  its contents, \<open>fds\<close> is the descriptor table of the process, \<open>errno\<close> the C variable,
  \<open>trace\<close> the system calls issued so far, in order.  \<open>fails\<close> is the environment's verdict
  on a call for every reason the model does not represent (permissions, a file system
  without reflinks, an I/O error): \<open>Some e\<close> makes that call fail with errno \<open>e\<close>.
  \<open>nofile\<close> is the descriptor limit, \<open>strerror\<close> the C library's message table.
\<close>

record os =
  files :: "path \<rightharpoonup> string"
  fds :: "int \<rightharpoonup> path"
  errno :: int
  trace :: "syscall list"
  fails :: "syscall \<rightharpoonup> int"
  nofile :: nat
  strerror :: "int \<Rightarrow> string"

text \<open>The lowest descriptor not in use, searched from \<open>k\<close> over \<open>n\<close> candidates.\<close>

fun alloc_fd :: "(int \<rightharpoonup> path) \<Rightarrow> nat \<Rightarrow> int \<Rightarrow> int option" where
  "alloc_fd t 0 k = None"
| "alloc_fd t (Suc n) k = (if t k = None then Some k else alloc_fd t n (k + 1))"

text \<open>
  \<^verbatim>\<open>open(path, flags, mode)\<close>: fails without side effect, or returns the lowest free descriptor.
  With \<^verbatim>\<open>O_CREAT\<close> a missing file is created empty, with \<^verbatim>\<open>O_TRUNC\<close> an existing one is emptied.
\<close>

definition sys_open :: "os \<Rightarrow> path \<Rightarrow> int \<Rightarrow> nat \<Rightarrow> int \<times> os" where
  "sys_open s p flags mode =
     (let s' = s\<lparr>trace := trace s @ [Sys_open p flags mode]\<rparr> in
      case fails s (Sys_open p flags mode) of
        Some e \<Rightarrow> (- 1, s'\<lparr>errno := e\<rparr>)
      | None \<Rightarrow>
          if p = [] \<or> (files s p = None \<and> flags AND O_CREAT = 0) then (- 1, s'\<lparr>errno := ENOENT\<rparr>)
          else
            (case alloc_fd (fds s) (nofile s) 0 of
               None \<Rightarrow> (- 1, s'\<lparr>errno := EMFILE\<rparr>)
             | Some fd \<Rightarrow>
                 (fd, s'\<lparr>fds := (fds s)(fd \<mapsto> p),
                         files := (if files s p = None \<or> flags AND O_TRUNC \<noteq> 0
                                   then (files s)(p \<mapsto> []) else files s)\<rparr>)))"

text \<open>
  \<^verbatim>\<open>close(fd)\<close>.  On Linux an open descriptor is released even when close reports an error
  (close(2), "Dealing with error returns from close()").
\<close>

definition sys_close :: "os \<Rightarrow> int \<Rightarrow> int \<times> os" where
  "sys_close s fd =
     (let s' = s\<lparr>trace := trace s @ [Sys_close fd]\<rparr> in
      case fds s fd of
        None \<Rightarrow> (- 1, s'\<lparr>errno := EBADF\<rparr>)
      | Some p \<Rightarrow>
          (let s'' = s'\<lparr>fds := (fds s)(fd := None)\<rparr> in
           case fails s (Sys_close fd) of
             Some e \<Rightarrow> (- 1, s''\<lparr>errno := e\<rparr>)
           | None \<Rightarrow> (0, s'')))"

text \<open>
  \<^verbatim>\<open>ioctl(fd, request, arg)\<close>; with \<^verbatim>\<open>FICLONE\<close> the file behind \<open>fd\<close> receives the contents of
  the file behind the descriptor \<open>arg\<close>.  A failed call changes no file.
\<close>

definition sys_ioctl :: "os \<Rightarrow> int \<Rightarrow> nat \<Rightarrow> int \<Rightarrow> int \<times> os" where
  "sys_ioctl s fd request arg =
     (let s' = s\<lparr>trace := trace s @ [Sys_ioctl fd request arg]\<rparr> in
      case fails s (Sys_ioctl fd request arg) of
        Some e \<Rightarrow> (- 1, s'\<lparr>errno := e\<rparr>)
      | None \<Rightarrow>
          if request \<noteq> FICLONE then (- 1, s'\<lparr>errno := ENOTTY\<rparr>)
          else
            (case fds s fd of
               None \<Rightarrow> (- 1, s'\<lparr>errno := EBADF\<rparr>)
             | Some dp \<Rightarrow>
                 (case fds s arg of
                    None \<Rightarrow> (- 1, s'\<lparr>errno := EBADF\<rparr>)
                  | Some sp \<Rightarrow>
                      (case files s sp of
                         None \<Rightarrow> (- 1, s'\<lparr>errno := EBADF\<rparr>)
                       | Some c \<Rightarrow> (0, s'\<lparr>files := (files s)(dp \<mapsto> c)\<rparr>)))))"

text \<open>\<^verbatim>\<open>unlink(path)\<close>: removes the name, or fails and leaves it.\<close>

definition sys_unlink :: "os \<Rightarrow> path \<Rightarrow> int \<times> os" where
  "sys_unlink s p =
     (let s' = s\<lparr>trace := trace s @ [Sys_unlink p]\<rparr> in
      case fails s (Sys_unlink p) of
        Some e \<Rightarrow> (- 1, s'\<lparr>errno := e\<rparr>)
      | None \<Rightarrow>
          if files s p = None then (- 1, s'\<lparr>errno := ENOENT\<rparr>)
          else (0, s'\<lparr>files := (files s)(p := None)\<rparr>))"

text \<open>
  \<^verbatim>\<open>clonefile(src, dst, flags)\<close> of macOS: fails with \<^verbatim>\<open>EEXIST\<close> when \<open>dst\<close> exists
  (clonefile(2)); a failed call changes no file.
\<close>

definition sys_clonefile :: "os \<Rightarrow> path \<Rightarrow> path \<Rightarrow> int \<Rightarrow> int \<times> os" where
  "sys_clonefile s src dst flags =
     (let s' = s\<lparr>trace := trace s @ [Sys_clonefile src dst flags]\<rparr> in
      case fails s (Sys_clonefile src dst flags) of
        Some e \<Rightarrow> (- 1, s'\<lparr>errno := e\<rparr>)
      | None \<Rightarrow>
          (case files s src of
             None \<Rightarrow> (- 1, s'\<lparr>errno := ENOENT\<rparr>)
           | Some c \<Rightarrow>
               if files s dst \<noteq> None then (- 1, s'\<lparr>errno := EEXIST\<rparr>)
               else (0, s'\<lparr>files := (files s)(dst \<mapsto> c)\<rparr>)))"

section \<open>The callbacks\<close>

text \<open>
  A callback receives the call's arguments and runs against the operating system;
  it returns a value or throws.  \<^verbatim>\<open>napi_get_cb_info\<close> with \<open>argc = 2\<close> stores the number of
  arguments passed in \<open>argc\<close> and the first two of them in \<open>argv\<close>.
\<close>

type_synonym napi_callback = "js_value list \<Rightarrow> os \<Rightarrow> js_result \<times> os"

definition darwin_clonefile :: napi_callback where
  "darwin_clonefile args s =
     (if length args < 2 then
        (Thrown (napi_throw_error ''clonefile requires 2 arguments: src, dest''), s)
      else
        case get_string_arg (args ! 0) (PATH_MAX Darwin) ''src'' of
          Inl e \<Rightarrow> (Thrown e, s)
        | Inr src \<Rightarrow>
            (case get_string_arg (args ! 1) (PATH_MAX Darwin) ''dest'' of
               Inl e \<Rightarrow> (Thrown e, s)
             | Inr dest \<Rightarrow>
                 (let (result, s1) = sys_clonefile s (c_str src) (c_str dest) 0 in
                  if result \<noteq> 0 then
                    (Thrown (throw_errno_error (strerror s1) ''clonefile'' (errno s1)), s1)
                  else (Returned JSUndefined, s1))))"

definition darwin_is_available :: napi_callback where
  "darwin_is_available args s = (Returned (JSBoolean True), s)"

definition darwin_supports_directory :: napi_callback where
  "darwin_supports_directory args s = (Returned (JSBoolean True), s)"

definition linux_ficlone :: napi_callback where
  "linux_ficlone args s =
     (if length args < 2 then
        (Thrown (napi_throw_error ''ficlone requires 2 arguments: src, dest''), s)
      else
        case get_string_arg (args ! 0) (PATH_MAX Linux) ''src'' of
          Inl e \<Rightarrow> (Thrown e, s)
        | Inr src \<Rightarrow>
            (case get_string_arg (args ! 1) (PATH_MAX Linux) ''dest'' of
               Inl e \<Rightarrow> (Thrown e, s)
             | Inr dest \<Rightarrow>
                 (let (src_fd, s1) = sys_open s (c_str src) O_RDONLY 0 in
                  if src_fd < 0 then
                    (Thrown (throw_errno_error (strerror s1) ''open source'' (errno s1)), s1)
                  else
                    (let (dest_fd, s2) =
                           sys_open s1 (c_str dest) (O_WRONLY OR O_CREAT OR O_TRUNC)
                             DEFAULT_FILE_MODE in
                     if dest_fd < 0 then
                       (let saved_errno = errno s2;
                            (r, s3) = sys_close s2 src_fd in
                        (Thrown (throw_errno_error (strerror s3) ''open dest'' saved_errno), s3))
                     else
                       (let (result, s3) = sys_ioctl s2 dest_fd FICLONE src_fd;
                            saved_errno = errno s3;
                            (r1, s4) = sys_close s3 src_fd;
                            (r2, s5) = sys_close s4 dest_fd in
                        if result \<noteq> 0 then
                          (let (r3, s6) = sys_unlink s5 (c_str dest) in
                           (Thrown (throw_errno_error (strerror s6) ''ioctl FICLONE'' saved_errno),
                            s6))
                        else (Returned JSUndefined, s5))))))"

definition linux_is_available :: napi_callback where
  "linux_is_available args s = (Returned (JSBoolean True), s)"

definition linux_supports_directory :: napi_callback where
  "linux_supports_directory args s = (Returned (JSBoolean False), s)"

fun get_platform :: "target \<Rightarrow> napi_callback" where
  "get_platform Darwin args s = (Returned (JSString ''darwin''), s)"
| "get_platform Linux args s = (Returned (JSString ''linux''), s)"
| "get_platform Other args s = (Returned (JSString ''unknown''), s)"

section \<open>Module initialisation\<close>

text \<open>
  \<^verbatim>\<open>Init(env, exports)\<close>: \<^verbatim>\<open>napi_set_named_property\<close> stores a value under a name of the
  exports object, modelled as a map from property names to values.
\<close>

type_synonym js_object = "string \<rightharpoonup> js_value"

fun Init :: "target \<Rightarrow> js_object \<Rightarrow> js_object" where
  "Init Darwin exports =
     (let exports = exports(''getPlatform'' \<mapsto> JSFunction Fn_get_platform);
          exports = exports(''clone'' \<mapsto> JSFunction Fn_darwin_clonefile);
          exports = exports(''isAvailable'' \<mapsto> JSFunction Fn_darwin_is_available);
          exports = exports(''supportsDirectory'' \<mapsto> JSFunction Fn_darwin_supports_directory)
      in exports)"
| "Init Linux exports =
     (let exports = exports(''getPlatform'' \<mapsto> JSFunction Fn_get_platform);
          exports = exports(''clone'' \<mapsto> JSFunction Fn_linux_ficlone);
          exports = exports(''isAvailable'' \<mapsto> JSFunction Fn_linux_is_available);
          exports = exports(''supportsDirectory'' \<mapsto> JSFunction Fn_linux_supports_directory)
      in exports)"
| "Init Other exports =
     (let exports = exports(''getPlatform'' \<mapsto> JSFunction Fn_get_platform);
          unavailable = JSBoolean False;
          exports = exports(''isAvailable'' \<mapsto> unavailable)
      in exports)"

text \<open>The callback behind a function value, in a build for target \<open>t\<close>.\<close>

fun call_native :: "target \<Rightarrow> native_fn \<Rightarrow> napi_callback" where
  "call_native t Fn_get_platform = get_platform t"
| "call_native t Fn_darwin_clonefile = darwin_clonefile"
| "call_native t Fn_darwin_is_available = darwin_is_available"
| "call_native t Fn_darwin_supports_directory = darwin_supports_directory"
| "call_native t Fn_linux_ficlone = linux_ficlone"
| "call_native t Fn_linux_is_available = linux_is_available"
| "call_native t Fn_linux_supports_directory = linux_supports_directory"

text \<open>
  What JavaScript does with \<^verbatim>\<open>exports.name(args)\<close>: it calls the property when it holds a
  function and throws a TypeError when it holds anything else or nothing.
\<close>

definition js_call :: "target \<Rightarrow> js_object \<Rightarrow> string \<Rightarrow> napi_callback" where
  "js_call t exports name args s =
     (case exports name of
        Some (JSFunction f) \<Rightarrow> call_native t f args s
      | _ \<Rightarrow> (Thrown \<lparr>err_class = JSTypeError, message = name @ '' is not a function'',
                       err_errno = None\<rparr>, s))"

text \<open>The module object a build for target \<open>t\<close> hands to JavaScript.\<close>

definition module_exports :: "target \<Rightarrow> js_object" where
  "module_exports t = Init t Map.empty"

section \<open>Sample environments\<close>

text \<open>A few entries of the message table of glibc.\<close>

definition glibc_strerror :: "int \<Rightarrow> string" where
  "glibc_strerror e =
     (if e = 2 then ''No such file or directory''
      else if e = 13 then ''Permission denied''
      else if e = 18 then ''Invalid cross-device link''
      else if e = 95 then ''Operation not supported''
      else ''Unknown error '' @ show_int e)"

text \<open>
  A process with its three standard descriptors open, on a file system holding a source
  file and an older file at the destination.
\<close>

definition proc_os :: os where
  "proc_os = \<lparr>files = [''/s'' \<mapsto> ''data'', ''/d'' \<mapsto> ''old''],
              fds = [0 \<mapsto> ''/dev/tty'', 1 \<mapsto> ''/dev/tty'', 2 \<mapsto> ''/dev/tty''],
              errno = 0, trace = [], fails = Map.empty, nofile = 8,
              strerror = glibc_strerror\<rparr>"

text \<open>
  The same on a file system without reflinks: the ioctl is refused, and closing the source
  descriptor reports an I/O error.
\<close>

definition no_reflink_os :: os where
  "no_reflink_os = proc_os\<lparr>fails := [Sys_ioctl 4 FICLONE 3 \<mapsto> EOPNOTSUPP, Sys_close 3 \<mapsto> EIO]\<rparr>"

text \<open>
  The same with the destination in a directory the caller may not modify: the existing file
  can be opened for writing, its name cannot be removed.
\<close>

definition locked_dir_os :: os where
  "locked_dir_os =
     proc_os\<lparr>fails := [Sys_ioctl 4 FICLONE 3 \<mapsto> EOPNOTSUPP, Sys_unlink ''/d'' \<mapsto> EACCES]\<rparr>"

text \<open>The destination cannot be opened for writing.\<close>

definition dest_denied_os :: os where
  "dest_denied_os =
     proc_os\<lparr>fails := [Sys_open ''/d'' (O_WRONLY OR O_CREAT OR O_TRUNC) DEFAULT_FILE_MODE \<mapsto> EACCES,
                        Sys_close 3 \<mapsto> EIO]\<rparr>"

text \<open>Source and destination on different file systems, the destination's directory
  not writable.\<close>

definition cross_device_os :: os where
  "cross_device_os =
     \<lparr>files = [''/mnt/a'' \<mapsto> ''new'', ''/srv/b'' \<mapsto> ''precious''],
      fds = [0 \<mapsto> ''/dev/null''], errno = 0, trace = [],
      fails = [Sys_ioctl 2 FICLONE 1 \<mapsto> EXDEV, Sys_unlink ''/srv/b'' \<mapsto> EACCES],
      nofile = 4, strerror = glibc_strerror\<rparr>"

section \<open>Properties of the host and of the system calls\<close>

lemma char_boundary_le: "char_boundary b k \<le> k"
  by (induction k) auto

lemma char_boundary_start: "\<not> is_cont (b ! k) \<Longrightarrow> char_boundary b k = k"
  by (cases k) auto

lemma write_utf8_length: "length (write_utf8 b cap) \<le> cap"
  using char_boundary_le [of b cap] by (simp add: write_utf8_def)

lemma write_utf8_prefix: "prefix (write_utf8 b cap) b"
  by (simp add: write_utf8_def take_is_prefix)

lemma write_utf8_truncates:
  "cap < length b \<Longrightarrow> \<not> is_cont (b ! cap) \<Longrightarrow> write_utf8 b cap = take cap b"
  by (simp add: write_utf8_def char_boundary_start)

lemma get_string_arg_Inr:
  assumes "get_string_arg v n name = Inr buf"
  shows "\<exists>b. v = JSString b \<and> n \<noteq> 0 \<and> buf = write_utf8 b (n - 1) \<and> buf \<noteq> []"
  using assms by (cases v) (auto simp: get_string_arg_def split: if_splits)

lemma snprintf_fits: "length t < n \<Longrightarrow> snprintf n t = t"
  by (simp add: snprintf_def)

lemma show_int_2: "show_int 2 = ''2''"
  by (simp add: show_int_def show_nat.simps)

lemma alloc_fd_Some: "alloc_fd t n k = Some fd \<Longrightarrow> t fd = None \<and> k \<le> fd"
proof (induction n arbitrary: k)
  case 0
  then show ?case by simp
next
  case (Suc n)
  show ?case
  proof (cases "t k = None")
    case True
    with Suc.prems show ?thesis by simp
  next
    case False
    with Suc.prems have "alloc_fd t n (k + 1) = Some fd" by simp
    from Suc.IH [OF this] show ?thesis by simp
  qed
qed

lemma alloc_fd_numeral:
  "alloc_fd t (numeral n) k = (if t k = None then Some k else alloc_fd t (pred_numeral n) (k + 1))"
  by (simp add: numeral_eq_Suc)

lemma open_dest_flags:
  "(O_WRONLY OR O_CREAT OR O_TRUNC) AND O_TRUNC \<noteq> 0"
  "(O_WRONLY OR O_CREAT OR O_TRUNC) AND O_CREAT \<noteq> 0"
  "O_RDONLY AND O_TRUNC = 0"
  "O_RDONLY AND O_CREAT = 0"
  by (simp_all add: O_WRONLY_def O_CREAT_def O_TRUNC_def O_RDONLY_def)

lemma sys_open_frame:
  assumes "sys_open s p f m = (r, s1)"
  shows "trace s1 = trace s @ [Sys_open p f m]" and "fails s1 = fails s"
    and "strerror s1 = strerror s" and "nofile s1 = nofile s"
  using assms by (auto simp: sys_open_def Let_def split: option.splits if_splits)

lemma sys_open_failed:
  assumes "sys_open s p f m = (r, s1)" and "r < 0"
  shows "files s1 = files s" and "fds s1 = fds s"
  using assms
  by (auto simp: sys_open_def Let_def split: option.splits if_splits dest: alloc_fd_Some)

lemma sys_open_ok:
  assumes "sys_open s p f m = (r, s1)" and "0 \<le> r"
  shows "fds s r = None" and "fds s1 = (fds s)(r \<mapsto> p)"
    and "files s1 = (if files s p = None \<or> f AND O_TRUNC \<noteq> 0 then (files s)(p \<mapsto> []) else files s)"
    and "files s p \<noteq> None \<or> f AND O_CREAT \<noteq> 0"
  using assms
  by (auto simp: sys_open_def Let_def split: option.splits if_splits dest: alloc_fd_Some)

lemma sys_close_frame:
  assumes "sys_close s fd = (r, s1)"
  shows "trace s1 = trace s @ [Sys_close fd]" and "fails s1 = fails s"
    and "strerror s1 = strerror s" and "files s1 = files s"
    and "fds s1 = (fds s)(fd := None)"
  using assms by (auto simp: sys_close_def Let_def fun_eq_iff split: option.splits)

lemma sys_ioctl_frame:
  assumes "sys_ioctl s fd req arg = (r, s1)"
  shows "trace s1 = trace s @ [Sys_ioctl fd req arg]" and "fails s1 = fails s"
    and "strerror s1 = strerror s" and "fds s1 = fds s"
  using assms by (auto simp: sys_ioctl_def Let_def split: option.splits if_splits)

lemma sys_ioctl_failed:
  assumes "sys_ioctl s fd req arg = (r, s1)" and "r \<noteq> 0"
  shows "files s1 = files s"
  using assms by (auto simp: sys_ioctl_def Let_def split: option.splits if_splits)

lemma sys_unlink_frame:
  assumes "sys_unlink s p = (r, s1)"
  shows "trace s1 = trace s @ [Sys_unlink p]" and "fails s1 = fails s"
    and "strerror s1 = strerror s" and "fds s1 = fds s"
  using assms by (auto simp: sys_unlink_def Let_def split: option.splits if_splits)

lemma sys_unlink_files:
  assumes "sys_unlink s p = (r, s1)"
  shows "files s1 = (if fails s (Sys_unlink p) = None then (files s)(p := None) else files s)"
  using assms by (auto simp: sys_unlink_def Let_def fun_eq_iff split: option.splits if_splits)

lemma sys_clonefile_frame:
  assumes "sys_clonefile s src dst fl = (r, s1)"
  shows "trace s1 = trace s @ [Sys_clonefile src dst fl]" and "fails s1 = fails s"
    and "strerror s1 = strerror s" and "fds s1 = fds s"
  using assms by (auto simp: sys_clonefile_def Let_def split: option.splits if_splits)

lemma sys_clonefile_existing:
  assumes "sys_clonefile s src dst fl = (r, s1)" and "files s dst \<noteq> None"
  shows "r \<noteq> 0" and "files s1 = files s"
  using assms by (auto simp: sys_clonefile_def Let_def split: option.splits if_splits)

lemma fd_table_restore:
  "t a = None \<Longrightarrow> (t(a \<mapsto> p)) b = None \<Longrightarrow> (t(a \<mapsto> p, b \<mapsto> q))(a := None, b := None) = t"
  by (auto simp: fun_eq_iff split: if_splits)

text \<open>The run of \<open>linux_ficlone\<close> once both paths are validated and both files are open.\<close>

lemma linux_ficlone_ioctl_failed:
  assumes args: "2 \<le> length args"
      "get_string_arg (args ! 0) (PATH_MAX Linux) ''src'' = Inr src"
      "get_string_arg (args ! 1) (PATH_MAX Linux) ''dest'' = Inr dest"
    and o1: "sys_open s (c_str src) O_RDONLY 0 = (src_fd, s1)" "0 \<le> src_fd"
    and o2: "sys_open s1 (c_str dest) (O_WRONLY OR O_CREAT OR O_TRUNC) DEFAULT_FILE_MODE
               = (dest_fd, s2)" "0 \<le> dest_fd"
    and io: "sys_ioctl s2 dest_fd FICLONE src_fd = (result, s3)" "result \<noteq> 0"
  shows "linux_ficlone args s =
           (Thrown (throw_errno_error (strerror s) ''ioctl FICLONE'' (errno s3)),
            snd (sys_unlink (snd (sys_close (snd (sys_close s3 src_fd)) dest_fd)) (c_str dest)))"
proof -
  obtain r1 s4 where c1: "sys_close s3 src_fd = (r1, s4)" by (cases "sys_close s3 src_fd")
  obtain r2 s5 where c2: "sys_close s4 dest_fd = (r2, s5)" by (cases "sys_close s4 dest_fd")
  obtain r3 s6 where u: "sys_unlink s5 (c_str dest) = (r3, s6)"
    by (cases "sys_unlink s5 (c_str dest)")
  have "strerror s6 = strerror s"
    using sys_open_frame(3) [OF o1(1)] sys_open_frame(3) [OF o2(1)] sys_ioctl_frame(3) [OF io(1)]
      sys_close_frame(3) [OF c1] sys_close_frame(3) [OF c2] sys_unlink_frame(3) [OF u]
    by simp
  then show ?thesis
    using args o1 o2 io c1 c2 u by (simp add: linux_ficlone_def)
qed

lemma show_nat_length: "0 < k \<Longrightarrow> n < 10 ^ k \<Longrightarrow> length (show_nat n) \<le> k"
proof (induction k arbitrary: n)
  case 0
  then show ?case by simp
next
  case (Suc k)
  show ?case
  proof (cases "n < 10")
    case True
    then show ?thesis by (simp add: show_nat.simps)
  next
    case False
    with Suc.prems have k: "0 < k" by (cases k) auto
    from Suc.prems have "n div 10 < 10 ^ k" by (simp add: less_mult_imp_div_less mult.commute)
    from Suc.IH [OF k this] False show ?thesis by (subst show_nat.simps) simp
  qed
qed

lemma show_int_length:
  assumes "- (2 ^ 31) \<le> i" and "i < 2 ^ 31"
  shows "length (show_int i) \<le> 11"
proof -
  have "nat \<bar>i\<bar> < 10 ^ 10" using assms by simp
  then have "length (show_nat (nat \<bar>i\<bar>)) \<le> 10" by (intro show_nat_length) simp_all
  then show ?thesis by (simp add: show_int_def abs_if split: if_splits)
qed

section \<open>The paths through the clone callbacks\<close>

lemma linux_ficlone_too_few: "length args < 2 \<Longrightarrow>
  linux_ficlone args s = (Thrown (napi_throw_error ''ficlone requires 2 arguments: src, dest''), s)"
  by (simp add: linux_ficlone_def)


lemma get_string_arg_Inl: "get_string_arg v n name = Inl e \<Longrightarrow> err_errno e = None"
  by (cases v)
    (auto simp: get_string_arg_def napi_throw_error_def napi_throw_type_error_def split: if_splits)



lemma linux_ficlone_invalid:
  assumes "length args < 2 \<or> isl (get_string_arg (args ! 0) (PATH_MAX Linux) ''src'')
     \<or> isl (get_string_arg (args ! 1) (PATH_MAX Linux) ''dest'')"
  shows "snd (linux_ficlone args s) = s \<and>
         (\<exists>e. fst (linux_ficlone args s) = Thrown e \<and> err_errno e = None)"
proof (cases "length args < 2")
  case True
  then show ?thesis by (simp add: linux_ficlone_too_few napi_throw_error_def)
next
  case len: False
  show ?thesis
  proof (cases "get_string_arg (args ! 0) (PATH_MAX Linux) ''src''")
    case (Inl e)
    with len get_string_arg_Inl [OF Inl] show ?thesis by (simp add: linux_ficlone_def)
  next
    case src: (Inr src)
    with len assms obtain e where
      e: "get_string_arg (args ! 1) (PATH_MAX Linux) ''dest'' = Inl e"
      by (cases "get_string_arg (args ! 1) (PATH_MAX Linux) ''dest''") auto
    with len src get_string_arg_Inl [OF e] show ?thesis by (simp add: linux_ficlone_def)
  qed
qed


lemma linux_ficlone_open_source_failed:
  assumes "2 \<le> length args"
      "get_string_arg (args ! 0) (PATH_MAX Linux) ''src'' = Inr src"
      "get_string_arg (args ! 1) (PATH_MAX Linux) ''dest'' = Inr dest"
    and "sys_open s (c_str src) O_RDONLY 0 = (src_fd, s1)" "src_fd < 0"
  shows "linux_ficlone args s =
           (Thrown (throw_errno_error (strerror s) ''open source'' (errno s1)), s1)"
  using assms sys_open_frame(3) [OF assms(4)] by (simp add: linux_ficlone_def)

lemma linux_ficlone_open_dest_failed:
  assumes "2 \<le> length args"
      "get_string_arg (args ! 0) (PATH_MAX Linux) ''src'' = Inr src"
      "get_string_arg (args ! 1) (PATH_MAX Linux) ''dest'' = Inr dest"
    and o1: "sys_open s (c_str src) O_RDONLY 0 = (src_fd, s1)" "0 \<le> src_fd"
    and o2: "sys_open s1 (c_str dest) (O_WRONLY OR O_CREAT OR O_TRUNC) DEFAULT_FILE_MODE
               = (dest_fd, s2)" "dest_fd < 0"
  shows "linux_ficlone args s =
           (Thrown (throw_errno_error (strerror s) ''open dest'' (errno s2)),
            snd (sys_close s2 src_fd))"
proof -
  obtain r s3 where c: "sys_close s2 src_fd = (r, s3)" by (cases "sys_close s2 src_fd")
  have "strerror s3 = strerror s"
    using sys_open_frame(3) [OF o1(1)] sys_open_frame(3) [OF o2(1)] sys_close_frame(3) [OF c]
    by simp
  then show ?thesis using assms c by (simp add: linux_ficlone_def)
qed

lemma linux_ficlone_ioctl_ok:
  assumes "2 \<le> length args"
      "get_string_arg (args ! 0) (PATH_MAX Linux) ''src'' = Inr src"
      "get_string_arg (args ! 1) (PATH_MAX Linux) ''dest'' = Inr dest"
    and o1: "sys_open s (c_str src) O_RDONLY 0 = (src_fd, s1)" "0 \<le> src_fd"
    and o2: "sys_open s1 (c_str dest) (O_WRONLY OR O_CREAT OR O_TRUNC) DEFAULT_FILE_MODE
               = (dest_fd, s2)" "0 \<le> dest_fd"
    and io: "sys_ioctl s2 dest_fd FICLONE src_fd = (result, s3)" "result = 0"
  shows "linux_ficlone args s =
           (Returned JSUndefined, snd (sys_close (snd (sys_close s3 src_fd)) dest_fd))"
  using assms by (simp add: linux_ficlone_def split: prod.splits)

text \<open>The state a call of \<open>linux_ficlone\<close> leaves when the ioctl has failed.\<close>

lemma linux_ficlone_ioctl_failed_state:
  assumes args: "2 \<le> length args"
      "get_string_arg (args ! 0) (PATH_MAX Linux) ''src'' = Inr src"
      "get_string_arg (args ! 1) (PATH_MAX Linux) ''dest'' = Inr dest"
    and o1: "sys_open s (c_str src) O_RDONLY 0 = (src_fd, s1)" "0 \<le> src_fd"
    and o2: "sys_open s1 (c_str dest) (O_WRONLY OR O_CREAT OR O_TRUNC) DEFAULT_FILE_MODE
               = (dest_fd, s2)" "0 \<le> dest_fd"
    and io: "sys_ioctl s2 dest_fd FICLONE src_fd = (result, s3)" "result \<noteq> 0"
  shows "trace (snd (linux_ficlone args s)) =
           trace s @ [Sys_open (c_str src) O_RDONLY 0,
                      Sys_open (c_str dest) (O_WRONLY OR O_CREAT OR O_TRUNC) DEFAULT_FILE_MODE,
                      Sys_ioctl dest_fd FICLONE src_fd, Sys_close src_fd, Sys_close dest_fd,
                      Sys_unlink (c_str dest)]"
    and "files s2 = (files s)(c_str dest \<mapsto> [])"
    and "files (snd (linux_ficlone args s)) =
           (if fails s (Sys_unlink (c_str dest)) = None then (files s)(c_str dest := None)
            else (files s)(c_str dest \<mapsto> []))"
proof -
  obtain r1 s4 where c1: "sys_close s3 src_fd = (r1, s4)" by (cases "sys_close s3 src_fd")
  obtain r2 s5 where c2: "sys_close s4 dest_fd = (r2, s5)" by (cases "sys_close s4 dest_fd")
  obtain r3 s6 where u: "sys_unlink s5 (c_str dest) = (r3, s6)"
    by (cases "sys_unlink s5 (c_str dest)")
  have fin: "snd (linux_ficlone args s) = s6"
    using linux_ficlone_ioctl_failed [OF args o1 o2 io] c1 c2 u by simp
  show "trace (snd (linux_ficlone args s)) =
           trace s @ [Sys_open (c_str src) O_RDONLY 0,
                      Sys_open (c_str dest) (O_WRONLY OR O_CREAT OR O_TRUNC) DEFAULT_FILE_MODE,
                      Sys_ioctl dest_fd FICLONE src_fd, Sys_close src_fd, Sys_close dest_fd,
                      Sys_unlink (c_str dest)]"
    using fin sys_open_frame(1) [OF o1(1)] sys_open_frame(1) [OF o2(1)]
      sys_ioctl_frame(1) [OF io(1)] sys_close_frame(1) [OF c1] sys_close_frame(1) [OF c2]
      sys_unlink_frame(1) [OF u]
    by simp
  have "files s (c_str src) \<noteq> None"
    using sys_open_ok(4) [OF o1] by (simp add: open_dest_flags)
  then have f1: "files s1 = files s"
    using sys_open_ok(3) [OF o1] by (auto simp: open_dest_flags)
  show f2: "files s2 = (files s)(c_str dest \<mapsto> [])"
    using sys_open_ok(3) [OF o2] f1 by (simp add: open_dest_flags)
  have f5: "files s5 = files s2"
    using sys_ioctl_failed [OF io] sys_close_frame(4) [OF c1] sys_close_frame(4) [OF c2] by simp
  have "fails s5 = fails s"
    using sys_open_frame(2) [OF o1(1)] sys_open_frame(2) [OF o2(1)]
      sys_ioctl_frame(2) [OF io(1)] sys_close_frame(2) [OF c1] sys_close_frame(2) [OF c2]
    by simp
  then show "files (snd (linux_ficlone args s)) =
           (if fails s (Sys_unlink (c_str dest)) = None then (files s)(c_str dest := None)
            else (files s)(c_str dest \<mapsto> []))"
    using fin sys_unlink_files [OF u] f5 f2 by simp
qed

lemma darwin_clonefile_existing_dest:
  assumes "2 \<le> length args"
      "get_string_arg (args ! 0) (PATH_MAX Darwin) ''src'' = Inr src"
      "get_string_arg (args ! 1) (PATH_MAX Darwin) ''dest'' = Inr dest"
    and "files s (c_str dest) \<noteq> None"
  shows "fst (darwin_clonefile args s) =
           Thrown (throw_errno_error (strerror s) ''clonefile''
                     (errno (snd (darwin_clonefile args s))))"
    and "files (snd (darwin_clonefile args s)) = files s"
    and "trace (snd (darwin_clonefile args s)) =
           trace s @ [Sys_clonefile (c_str src) (c_str dest) 0]"
proof -
  obtain r s1 where c: "sys_clonefile s (c_str src) (c_str dest) 0 = (r, s1)"
    by (cases "sys_clonefile s (c_str src) (c_str dest) 0")
  have r: "r \<noteq> 0" and f: "files s1 = files s"
    using sys_clonefile_existing [OF c assms(4)] by simp_all
  have d: "darwin_clonefile args s =
             (Thrown (throw_errno_error (strerror s) ''clonefile'' (errno s1)), s1)"
    using assms c r sys_clonefile_frame(3) [OF c] by (simp add: darwin_clonefile_def)
  show "fst (darwin_clonefile args s) =
           Thrown (throw_errno_error (strerror s) ''clonefile''
                     (errno (snd (darwin_clonefile args s))))"
    using d by simp
  show "files (snd (darwin_clonefile args s)) = files s" using d f by simp
  show "trace (snd (darwin_clonefile args s)) =
           trace s @ [Sys_clonefile (c_str src) (c_str dest) 0]"
    using d sys_clonefile_frame(1) [OF c] by simp
qed



text \<open>The equations that evaluate the model on a concrete environment.\<close>

lemmas eval_defs =
  linux_ficlone_def darwin_clonefile_def get_string_arg_def write_utf8_def c_str_def
  sys_open_def sys_close_def sys_ioctl_def sys_unlink_def sys_clonefile_def
  proc_os_def no_reflink_os_def locked_dir_os_def dest_denied_os_def cross_device_os_def
  alloc_fd_numeral Let_def
  O_RDONLY_def O_WRONLY_def O_CREAT_def O_TRUNC_def FICLONE_def DEFAULT_FILE_MODE_def
  ENOENT_def EBADF_def EACCES_def EEXIST_def EXDEV_def EMFILE_def ENOTTY_def EOPNOTSUPP_def
  EIO_def

section \<open>Cleanup after a failed ioctl (C1)\<close>

text \<open>
  Claim C1, as the code has it.  On the Linux variant, when both paths are valid, both opens
  succeed and the FICLONE ioctl fails, the call issues exactly six system calls: the two
  opens, the ioctl, the close of each descriptor, and last an unlink of the destination
  path; it then reports the error labelled "ioctl FICLONE" with the errno of the ioctl.
  The result of the unlink is not inspected: the destination does not exist after the call
  provided the environment does not refuse the unlink.
\<close>

theorem linux_ficlone_ioctl_failure_cleanup:
  assumes "2 \<le> length args"
    and "get_string_arg (args ! 0) (PATH_MAX Linux) ''src'' = Inr src"
    and "get_string_arg (args ! 1) (PATH_MAX Linux) ''dest'' = Inr dest"
    and "sys_open s (c_str src) O_RDONLY 0 = (src_fd, s1)" and "0 \<le> src_fd"
    and "sys_open s1 (c_str dest) (O_WRONLY OR O_CREAT OR O_TRUNC) DEFAULT_FILE_MODE
           = (dest_fd, s2)" and "0 \<le> dest_fd"
    and "sys_ioctl s2 dest_fd FICLONE src_fd = (result, s3)" and "result \<noteq> 0"
  shows "fst (linux_ficlone args s)
           = Thrown (throw_errno_error (strerror s) ''ioctl FICLONE'' (errno s3)) \<and>
         trace (snd (linux_ficlone args s)) =
           trace s @ [Sys_open (c_str src) O_RDONLY 0,
                      Sys_open (c_str dest) (O_WRONLY OR O_CREAT OR O_TRUNC) DEFAULT_FILE_MODE,
                      Sys_ioctl dest_fd FICLONE src_fd, Sys_close src_fd, Sys_close dest_fd,
                      Sys_unlink (c_str dest)] \<and>
         (fails s (Sys_unlink (c_str dest)) = None \<longrightarrow>
            files (snd (linux_ficlone args s)) (c_str dest) = None)"
  using linux_ficlone_ioctl_failed [OF assms] linux_ficlone_ioctl_failed_state(1,3) [OF assms]
  by simp

theorem linux_ficlone_ioctl_failure_cleanup_witness:
  "0 \<le> fst (sys_open no_reflink_os ''/s'' O_RDONLY 0) \<and>
   0 \<le> fst (sys_open (snd (sys_open no_reflink_os ''/s'' O_RDONLY 0)) ''/d''
              (O_WRONLY OR O_CREAT OR O_TRUNC) DEFAULT_FILE_MODE) \<and>
   fst (sys_ioctl (snd (sys_open (snd (sys_open no_reflink_os ''/s'' O_RDONLY 0)) ''/d''
              (O_WRONLY OR O_CREAT OR O_TRUNC) DEFAULT_FILE_MODE)) 4 FICLONE 3) \<noteq> 0 \<and>
   fst (linux_ficlone [JSString ''/s'', JSString ''/d''] no_reflink_os)
     = Thrown (throw_errno_error glibc_strerror ''ioctl FICLONE'' EOPNOTSUPP) \<and>
   trace (snd (linux_ficlone [JSString ''/s'', JSString ''/d''] no_reflink_os)) =
     [Sys_open ''/s'' O_RDONLY 0,
      Sys_open ''/d'' (O_WRONLY OR O_CREAT OR O_TRUNC) DEFAULT_FILE_MODE,
      Sys_ioctl 4 FICLONE 3, Sys_close 3, Sys_close 4, Sys_unlink ''/d''] \<and>
   fails no_reflink_os (Sys_unlink ''/d'') = None \<and>
   files (snd (linux_ficlone [JSString ''/s'', JSString ''/d''] no_reflink_os)) ''/d'' = None"
proof -
  let ?args = "[JSString ''/s'', JSString ''/d'']"
  let ?o1 = "sys_open no_reflink_os (c_str ''/s'') O_RDONLY 0"
  let ?o2 = "sys_open (snd ?o1) (c_str ''/d'') (O_WRONLY OR O_CREAT OR O_TRUNC) DEFAULT_FILE_MODE"
  let ?io = "sys_ioctl (snd ?o2) (fst ?o2) FICLONE (fst ?o1)"
  have a: "2 \<le> length ?args"
    "get_string_arg (?args ! 0) (PATH_MAX Linux) ''src'' = Inr ''/s''"
    "get_string_arg (?args ! 1) (PATH_MAX Linux) ''dest'' = Inr ''/d''"
    by (simp_all add: eval_defs)
  have o1: "?o1 = (fst ?o1, snd ?o1)" and o2: "?o2 = (fst ?o2, snd ?o2)"
    and io: "?io = (fst ?io, snd ?io)" by simp_all
  have p1: "0 \<le> fst ?o1" by (simp add: eval_defs)
  have p2: "0 \<le> fst ?o2" by (simp add: eval_defs)
  have p3: "fst ?io \<noteq> 0" by (simp add: eval_defs)
  from linux_ficlone_ioctl_failure_cleanup [OF a o1 p1 o2 p2 io p3]
  show ?thesis by (simp add: eval_defs)
qed

theorem linux_ficlone_unlink_refused_counterexample:
  "fst (linux_ficlone [JSString ''/s'', JSString ''/d''] locked_dir_os)
     = Thrown (throw_errno_error glibc_strerror ''ioctl FICLONE'' EOPNOTSUPP) \<and>
   trace (snd (linux_ficlone [JSString ''/s'', JSString ''/d''] locked_dir_os)) =
     [Sys_open ''/s'' O_RDONLY 0,
      Sys_open ''/d'' (O_WRONLY OR O_CREAT OR O_TRUNC) DEFAULT_FILE_MODE,
      Sys_ioctl 4 FICLONE 3, Sys_close 3, Sys_close 4, Sys_unlink ''/d''] \<and>
   files (snd (linux_ficlone [JSString ''/s'', JSString ''/d''] locked_dir_os)) ''/d'' = Some []"
  by (simp add: eval_defs)

section \<open>Path validation (C2)\<close>

text \<open>
  Claim C2, as the code has it.  A path accepted by the validator is never empty, is
  strictly shorter than the buffer capacity, and is what the host's decoding left in the
  buffer: a prefix of the encoding of the string passed.  A string at least as long as the
  capacity is not rejected: when the byte at index \<open>capacity - 1\<close> starts a character,
  the validator accepts its first \<open>capacity - 1\<close> bytes.
\<close>

theorem get_string_arg_accepted:
  "(get_string_arg v n name = Inr buf \<longrightarrow>
      0 < length buf \<and> length buf < n \<and>
      (\<exists>b. v = JSString b \<and> buf = write_utf8 b (n - 1) \<and> prefix buf b)) \<and>
   (n \<le> length b \<and> 1 < n \<and> \<not> is_cont (b ! (n - 1)) \<longrightarrow>
      get_string_arg (JSString b) n name = Inr (take (n - 1) b))"
proof -
  have 1: "0 < length buf \<and> length buf < n \<and>
      (\<exists>b. v = JSString b \<and> buf = write_utf8 b (n - 1) \<and> prefix buf b)"
    if "get_string_arg v n name = Inr buf"
  proof -
    from get_string_arg_Inr [OF that] obtain b where
      b: "v = JSString b" "n \<noteq> 0" "buf = write_utf8 b (n - 1)" "buf \<noteq> []" by blast
    have "length buf \<le> n - 1" using b write_utf8_length by simp
    with b show ?thesis using write_utf8_prefix by auto
  qed
  have 2: "get_string_arg (JSString b) n name = Inr (take (n - 1) b)"
    if "n \<le> length b \<and> 1 < n \<and> \<not> is_cont (b ! (n - 1))"
  proof -
    have "write_utf8 b (n - 1) = take (n - 1) b"
      using that by (intro write_utf8_truncates) auto
    moreover have "take (n - 1) b \<noteq> []" using that by auto
    ultimately show ?thesis using that by (simp add: get_string_arg_def)
  qed
  from 1 2 show ?thesis by blast
qed

theorem get_string_arg_accepted_witness:
  "get_string_arg (JSString ''/s'') (PATH_MAX Linux) ''src'' = Inr ''/s'' \<and>
   length ''/s'' < PATH_MAX Linux \<and>
   (4::nat) \<le> length ''/abcd'' \<and> (1::nat) < 4 \<and> \<not> is_cont (''/abcd'' ! (4 - 1)) \<and>
   get_string_arg (JSString ''/abcd'') 4 ''src'' = Inr ''/ab''"
  using get_string_arg_accepted [of "JSString ''/s''" "PATH_MAX Linux" "''src''" "''/s''" "''/abcd''"]
    get_string_arg_accepted [of "JSString ''/abcd''" 4 "''src''" "''/ab''" "''/abcd''"]
  by (simp add: get_string_arg_def write_utf8_def is_cont_def)

theorem get_string_arg_overlong_counterexample:
  "PATH_MAX Linux \<le> length (replicate 4096 CHR ''a'') \<and>
   get_string_arg (JSString (replicate 4096 CHR ''a'')) (PATH_MAX Linux) ''src''
     = Inr (replicate 4095 CHR ''a'')"
proof -
  have "write_utf8 (replicate 4096 CHR ''a'') 4095 = take 4095 (replicate 4096 CHR ''a'')"
    by (rule write_utf8_truncates) (simp_all add: is_cont_def)
  then show ?thesis by (simp add: get_string_arg_def)
qed

section \<open>Exports of an unsupported build (C3)\<close>

text \<open>
  Claim C3, evaluated on the code.  In a build for neither platform \<open>Init\<close> exports
  \<open>getPlatform\<close> and, under the name \<open>isAvailable\<close>, the boolean \<open>false\<close> itself;
  \<open>clone\<close> and \<open>supportsDirectory\<close> are not exported.  The property is a value, not a
  function: calling it throws a TypeError instead of returning \<open>false\<close>.
\<close>

theorem unsupported_build_exports:
  "module_exports Other ''isAvailable'' = Some (JSBoolean False) \<and>
   module_exports Other ''clone'' = None \<and>
   module_exports Other ''supportsDirectory'' = None \<and>
   js_call Other (module_exports Other) ''isAvailable'' args s
     = (Thrown \<lparr>err_class = JSTypeError, message = ''isAvailable is not a function'',
                err_errno = None\<rparr>, s)"
  by (simp add: js_call_def module_exports_def)

section \<open>Platform name (C4)\<close>

text \<open>
  Claim C4, as the code has it.  \<open>getPlatform()\<close> returns "darwin" in a Darwin build,
  "linux" in a Linux build and "unknown" in every other build; it leaves the system
  untouched, and the exported property calls this very callback.
\<close>

theorem get_platform_names:
  "get_platform t args s
     = (Returned (JSString (case t of Darwin \<Rightarrow> ''darwin'' | Linux \<Rightarrow> ''linux''
                            | Other \<Rightarrow> ''unknown'')), s) \<and>
   js_call t (module_exports t) ''getPlatform'' args s = get_platform t args s"
  by (cases t) (simp_all add: js_call_def module_exports_def)

theorem get_platform_unknown_counterexample:
  "fst (js_call Other (module_exports Other) ''getPlatform'' [] proc_os)
     = Returned (JSString ''unknown'') \<and>
   fst (js_call Other (module_exports Other) ''getPlatform'' [] proc_os)
     \<noteq> Returned (JSString ''unsupported'')"
  by (simp add: js_call_def module_exports_def)

section \<open>Error translation (C5)\<close>

text \<open>
  Claim C5.  The error translator always stores the OS error code in the \<open>errno\<close>
  property.  For each of the four operation labels the program passes, every 32-bit error
  code and every description of at most 213 bytes, the message equals
  "<operation> failed: <description of the code> (errno <code>)", and so contains the label
  and the decimal rendering of the code.  In general the message is what fits the buffer of
  \<open>ERROR_MSG_BUFFER_SIZE\<close> bytes, the first 255 bytes of that text, and equals the text
  whenever the text is shorter than the buffer.
\<close>

theorem throw_errno_error_message:
  "err_errno (throw_errno_error str operation err) = Some err \<and>
   message (throw_errno_error str operation err)
     = take 255 (operation @ '' failed: '' @ str err @ '' (errno '' @ show_int err @ '')'') \<and>
   (length (operation @ '' failed: '' @ str err @ '' (errno '' @ show_int err @ '')'')
      < ERROR_MSG_BUFFER_SIZE \<longrightarrow>
    message (throw_errno_error str operation err)
      = operation @ '' failed: '' @ str err @ '' (errno '' @ show_int err @ '')'' \<and>
    sublist operation (message (throw_errno_error str operation err)) \<and>
    sublist (show_int err) (message (throw_errno_error str operation err))) \<and>
   (operation \<in> {''clonefile'', ''open source'', ''open dest'', ''ioctl FICLONE''} \<and>
    - (2 ^ 31) \<le> err \<and> err < 2 ^ 31 \<and> length (str err) \<le> 213 \<longrightarrow>
    message (throw_errno_error str operation err)
      = operation @ '' failed: '' @ str err @ '' (errno '' @ show_int err @ '')'' \<and>
    sublist operation (message (throw_errno_error str operation err)) \<and>
    sublist (show_int err) (message (throw_errno_error str operation err)))"
proof -
  let ?text = "operation @ '' failed: '' @ str err @ '' (errno '' @ show_int err @ '')''"
  let ?m = "message (throw_errno_error str operation err)"
  have e: "err_errno (throw_errno_error str operation err) = Some err"
    by (simp add: throw_errno_error_def)
  have t: "?m = take 255 ?text"
    by (simp add: throw_errno_error_def snprintf_def ERROR_MSG_BUFFER_SIZE_def)
  have l: "sublist operation ?text"
    by (rule sublist_append_rightI)
  have "?text = (operation @ '' failed: '' @ str err @ '' (errno '') @ show_int err @ '')''"
    by simp
  then have d: "sublist (show_int err) ?text"
    unfolding sublist_def by blast
  have m: "?m = ?text \<and> sublist operation ?m \<and> sublist (show_int err) ?m"
    if "length ?text < ERROR_MSG_BUFFER_SIZE"
  proof -
    from that have "?m = ?text" by (simp add: throw_errno_error_def snprintf_fits)
    with l d show ?thesis by simp
  qed
  have f: "length ?text < ERROR_MSG_BUFFER_SIZE"
    if "operation \<in> {''clonefile'', ''open source'', ''open dest'', ''ioctl FICLONE''}"
      and "- (2 ^ 31) \<le> err" and "err < 2 ^ 31" and "length (str err) \<le> 213"
  proof -
    from that(1) have "length operation \<le> 13" by auto
    moreover have "length (show_int err) \<le> 11" using that(2,3) by (rule show_int_length)
    ultimately show ?thesis using that(4) by (simp add: ERROR_MSG_BUFFER_SIZE_def)
  qed
  have c3: "length ?text < ERROR_MSG_BUFFER_SIZE \<longrightarrow>
      ?m = ?text \<and> sublist operation ?m \<and> sublist (show_int err) ?m"
    by (rule impI) (rule m)
  have c4: "operation \<in> {''clonefile'', ''open source'', ''open dest'', ''ioctl FICLONE''} \<and>
      - (2 ^ 31) \<le> err \<and> err < 2 ^ 31 \<and> length (str err) \<le> 213 \<longrightarrow>
      ?m = ?text \<and> sublist operation ?m \<and> sublist (show_int err) ?m"
  proof (rule impI, elim conjE)
    assume "operation \<in> {''clonefile'', ''open source'', ''open dest'', ''ioctl FICLONE''}"
      and "- (2 ^ 31) \<le> err" and "err < 2 ^ 31" and "length (str err) \<le> 213"
    then have "length ?text < ERROR_MSG_BUFFER_SIZE" by (rule f)
    then show "?m = ?text \<and> sublist operation ?m \<and> sublist (show_int err) ?m" by (rule m)
  qed
  show ?thesis by (rule conjI [OF e conjI [OF t conjI [OF c3 c4]]])
qed

theorem throw_errno_error_message_witness:
  "''open source'' \<in> {''clonefile'', ''open source'', ''open dest'', ''ioctl FICLONE''} \<and>
   - (2 ^ 31) \<le> (2::int) \<and> (2::int) < 2 ^ 31 \<and>
   length (glibc_strerror 2) \<le> 213 \<and>
   length (''open source'' @ '' failed: '' @ glibc_strerror 2 @ '' (errno '' @ show_int 2 @ '')'')
     < ERROR_MSG_BUFFER_SIZE \<and>
   message (throw_errno_error glibc_strerror ''open source'' 2)
     = ''open source failed: No such file or directory (errno 2)'' \<and>
   sublist ''open source'' (message (throw_errno_error glibc_strerror ''open source'' 2)) \<and>
   sublist (show_int 2) (message (throw_errno_error glibc_strerror ''open source'' 2)) \<and>
   err_errno (throw_errno_error glibc_strerror ''open source'' 2) = Some 2"
proof -
  have h: "''open source'' \<in> {''clonefile'', ''open source'', ''open dest'', ''ioctl FICLONE''} \<and>
    - (2 ^ 31) \<le> (2::int) \<and> (2::int) < 2 ^ 31 \<and> length (glibc_strerror 2) \<le> 213"
    by (simp add: glibc_strerror_def)
  have l: "length (''open source'' @ '' failed: '' @ glibc_strerror 2 @ '' (errno '' @ show_int 2 @ '')'')
     < ERROR_MSG_BUFFER_SIZE"
    by (simp add: glibc_strerror_def show_int_2 ERROR_MSG_BUFFER_SIZE_def)
  have v: "''open source'' @ '' failed: '' @ glibc_strerror 2 @ '' (errno '' @ show_int 2 @ '')''
     = ''open source failed: No such file or directory (errno 2)''"
    by (simp add: glibc_strerror_def show_int_2)
  from throw_errno_error_message [of glibc_strerror "''open source''" 2] h l
  have "message (throw_errno_error glibc_strerror ''open source'' 2)
      = ''open source'' @ '' failed: '' @ glibc_strerror 2 @ '' (errno '' @ show_int 2 @ '')'' \<and>
    sublist ''open source'' (message (throw_errno_error glibc_strerror ''open source'' 2)) \<and>
    sublist (show_int 2) (message (throw_errno_error glibc_strerror ''open source'' 2)) \<and>
    err_errno (throw_errno_error glibc_strerror ''open source'' 2) = Some 2"
    by blast
  then have r: "message (throw_errno_error glibc_strerror ''open source'' 2)
      = ''open source'' @ '' failed: '' @ glibc_strerror 2 @ '' (errno '' @ show_int 2 @ '')''"
    and c: "sublist ''open source'' (message (throw_errno_error glibc_strerror ''open source'' 2))"
      "sublist (show_int 2) (message (throw_errno_error glibc_strerror ''open source'' 2))"
      "err_errno (throw_errno_error glibc_strerror ''open source'' 2) = Some 2"
    by blast+
  from r v have m: "message (throw_errno_error glibc_strerror ''open source'' 2)
      = ''open source failed: No such file or directory (errno 2)''"
    by (rule trans)
  from h l m c show ?thesis by blast
qed

section \<open>Capability queries (C6)\<close>

text \<open>
  Claim C6.  The capability queries ignore their arguments and the state of the system, and
  leave it unchanged: \<open>isAvailable()\<close> returns true in Darwin and in Linux builds,
  \<open>supportsDirectory()\<close> returns true in Darwin builds and false in Linux builds, on
  every call.
\<close>

theorem capability_queries_constant:
  "js_call Darwin (module_exports Darwin) ''isAvailable'' args s = (Returned (JSBoolean True), s) \<and>
   js_call Linux (module_exports Linux) ''isAvailable'' args s = (Returned (JSBoolean True), s) \<and>
   js_call Darwin (module_exports Darwin) ''supportsDirectory'' args s
     = (Returned (JSBoolean True), s) \<and>
   js_call Linux (module_exports Linux) ''supportsDirectory'' args s
     = (Returned (JSBoolean False), s) \<and>
   darwin_is_available args s = (Returned (JSBoolean True), s) \<and>
   linux_is_available args s = (Returned (JSBoolean True), s) \<and>
   darwin_supports_directory args s = (Returned (JSBoolean True), s) \<and>
   linux_supports_directory args s = (Returned (JSBoolean False), s)"
  by (simp add: js_call_def module_exports_def darwin_is_available_def linux_is_available_def
      darwin_supports_directory_def linux_supports_directory_def)

section \<open>Validation precedes every system call (C7)\<close>




section \<open>Step order of the Linux clone (C8)\<close>

text \<open>
  Claim C8.  With valid paths, the Linux clone proceeds in order.  If the read-only open of
  the source fails, it throws the error labelled "open source" with the errno of that open,
  having issued that one call and changed no file.  If the open of the destination (flags
  \<open>O_WRONLY | O_CREAT | O_TRUNC\<close>, mode 0644, that is rw-r--r--) fails, it closes the
  source descriptor and then throws the error labelled "open dest" with the errno of that
  open.  If the ioctl fails, it throws the error labelled "ioctl FICLONE" with the errno
  found right after the ioctl, whatever the later close and unlink calls do to errno.
\<close>

theorem linux_ficlone_step_order:
  assumes "2 \<le> length args"
    and "get_string_arg (args ! 0) (PATH_MAX Linux) ''src'' = Inr src"
    and "get_string_arg (args ! 1) (PATH_MAX Linux) ''dest'' = Inr dest"
    and o1: "sys_open s (c_str src) O_RDONLY 0 = (src_fd, s1)"
    and o2: "sys_open s1 (c_str dest) (O_WRONLY OR O_CREAT OR O_TRUNC) DEFAULT_FILE_MODE
           = (dest_fd, s2)"
    and io: "sys_ioctl s2 dest_fd FICLONE src_fd = (result, s3)"
  shows "(src_fd < 0 \<longrightarrow>
            linux_ficlone args s
              = (Thrown (throw_errno_error (strerror s) ''open source'' (errno s1)), s1) \<and>
            trace s1 = trace s @ [Sys_open (c_str src) O_RDONLY 0] \<and>
            files s1 = files s) \<and>
         (0 \<le> src_fd \<and> dest_fd < 0 \<longrightarrow>
            fst (linux_ficlone args s)
              = Thrown (throw_errno_error (strerror s) ''open dest'' (errno s2)) \<and>
            trace (snd (linux_ficlone args s)) =
              trace s @ [Sys_open (c_str src) O_RDONLY 0,
                         Sys_open (c_str dest) (O_WRONLY OR O_CREAT OR O_TRUNC) DEFAULT_FILE_MODE,
                         Sys_close src_fd] \<and>
            fds (snd (linux_ficlone args s)) src_fd = None) \<and>
         (0 \<le> src_fd \<and> 0 \<le> dest_fd \<and> result \<noteq> 0 \<longrightarrow>
            fst (linux_ficlone args s)
              = Thrown (throw_errno_error (strerror s) ''ioctl FICLONE'' (errno s3)) \<and>
            trace (snd (linux_ficlone args s)) =
              trace s @ [Sys_open (c_str src) O_RDONLY 0,
                         Sys_open (c_str dest) (O_WRONLY OR O_CREAT OR O_TRUNC) DEFAULT_FILE_MODE,
                         Sys_ioctl dest_fd FICLONE src_fd, Sys_close src_fd, Sys_close dest_fd,
                         Sys_unlink (c_str dest)]) \<and>
         DEFAULT_FILE_MODE div 64 mod 8 = 6 \<and> DEFAULT_FILE_MODE div 8 mod 8 = 4 \<and>
         DEFAULT_FILE_MODE mod 8 = 4 \<and> DEFAULT_FILE_MODE < 512"
proof -
  note a = assms(1-3)
  have 1: "linux_ficlone args s
              = (Thrown (throw_errno_error (strerror s) ''open source'' (errno s1)), s1) \<and>
            trace s1 = trace s @ [Sys_open (c_str src) O_RDONLY 0] \<and>
            files s1 = files s" if "src_fd < 0"
    using linux_ficlone_open_source_failed [OF a o1 that] sys_open_frame(1) [OF o1]
      sys_open_failed(1) [OF o1 that] by simp
  have 2: "fst (linux_ficlone args s)
              = Thrown (throw_errno_error (strerror s) ''open dest'' (errno s2)) \<and>
            trace (snd (linux_ficlone args s)) =
              trace s @ [Sys_open (c_str src) O_RDONLY 0,
                         Sys_open (c_str dest) (O_WRONLY OR O_CREAT OR O_TRUNC) DEFAULT_FILE_MODE,
                         Sys_close src_fd] \<and>
            fds (snd (linux_ficlone args s)) src_fd = None"
    if p: "0 \<le> src_fd" and n: "dest_fd < 0"
  proof -
    obtain r s' where c: "sys_close s2 src_fd = (r, s')" by (cases "sys_close s2 src_fd")
    from linux_ficlone_open_dest_failed [OF a o1 p o2 n] c
      sys_open_frame(1) [OF o1] sys_open_frame(1) [OF o2] sys_close_frame(1,5) [OF c]
    show ?thesis by simp
  qed
  have 3: "fst (linux_ficlone args s)
              = Thrown (throw_errno_error (strerror s) ''ioctl FICLONE'' (errno s3)) \<and>
            trace (snd (linux_ficlone args s)) =
              trace s @ [Sys_open (c_str src) O_RDONLY 0,
                         Sys_open (c_str dest) (O_WRONLY OR O_CREAT OR O_TRUNC) DEFAULT_FILE_MODE,
                         Sys_ioctl dest_fd FICLONE src_fd, Sys_close src_fd, Sys_close dest_fd,
                         Sys_unlink (c_str dest)]"
    if p: "0 \<le> src_fd" "0 \<le> dest_fd" and n: "result \<noteq> 0"
    using linux_ficlone_ioctl_failed [OF a o1 p(1) o2 p(2) io n]
      linux_ficlone_ioctl_failed_state(1) [OF a o1 p(1) o2 p(2) io n] by simp
  have 4: "DEFAULT_FILE_MODE div 64 mod 8 = 6 \<and> DEFAULT_FILE_MODE div 8 mod 8 = 4 \<and>
         DEFAULT_FILE_MODE mod 8 = 4 \<and> DEFAULT_FILE_MODE < 512"
    by (simp add: DEFAULT_FILE_MODE_def)
  from 1 2 3 4 show ?thesis by blast
qed

theorem linux_ficlone_step_order_witness:
  "fst (sys_open proc_os ''/missing'' O_RDONLY 0) < 0 \<and>
   linux_ficlone [JSString ''/missing'', JSString ''/new''] proc_os
     = (Thrown (throw_errno_error glibc_strerror ''open source'' ENOENT),
        proc_os\<lparr>errno := ENOENT, trace := [Sys_open ''/missing'' O_RDONLY 0]\<rparr>) \<and>
   0 \<le> fst (sys_open dest_denied_os ''/s'' O_RDONLY 0) \<and>
   fst (sys_open (snd (sys_open dest_denied_os ''/s'' O_RDONLY 0)) ''/d''
          (O_WRONLY OR O_CREAT OR O_TRUNC) DEFAULT_FILE_MODE) < 0 \<and>
   fst (linux_ficlone [JSString ''/s'', JSString ''/d''] dest_denied_os)
     = Thrown (throw_errno_error glibc_strerror ''open dest'' EACCES) \<and>
   errno (snd (linux_ficlone [JSString ''/s'', JSString ''/d''] dest_denied_os)) = EIO \<and>
   trace (snd (linux_ficlone [JSString ''/s'', JSString ''/d''] dest_denied_os)) =
     [Sys_open ''/s'' O_RDONLY 0,
      Sys_open ''/d'' (O_WRONLY OR O_CREAT OR O_TRUNC) DEFAULT_FILE_MODE, Sys_close 3] \<and>
   fst (sys_ioctl (snd (sys_open (snd (sys_open no_reflink_os ''/s'' O_RDONLY 0)) ''/d''
          (O_WRONLY OR O_CREAT OR O_TRUNC) DEFAULT_FILE_MODE)) 4 FICLONE 3) \<noteq> 0 \<and>
   fst (linux_ficlone [JSString ''/s'', JSString ''/d''] no_reflink_os)
     = Thrown (throw_errno_error glibc_strerror ''ioctl FICLONE'' EOPNOTSUPP) \<and>
   errno (snd (linux_ficlone [JSString ''/s'', JSString ''/d''] no_reflink_os)) = EIO"
proof -
  let ?A = "[JSString ''/missing'', JSString ''/new'']"
  let ?a1 = "sys_open proc_os (c_str ''/missing'') O_RDONLY 0"
  let ?a2 = "sys_open (snd ?a1) (c_str ''/new'') (O_WRONLY OR O_CREAT OR O_TRUNC) DEFAULT_FILE_MODE"
  let ?a3 = "sys_ioctl (snd ?a2) (fst ?a2) FICLONE (fst ?a1)"
  have A: "2 \<le> length ?A"
    "get_string_arg (?A ! 0) (PATH_MAX Linux) ''src'' = Inr ''/missing''"
    "get_string_arg (?A ! 1) (PATH_MAX Linux) ''dest'' = Inr ''/new''"
    by (simp_all add: eval_defs)
  have Ao: "?a1 = (fst ?a1, snd ?a1)" "?a2 = (fst ?a2, snd ?a2)" "?a3 = (fst ?a3, snd ?a3)"
    by simp_all
  let ?B = "[JSString ''/s'', JSString ''/d'']"
  let ?b1 = "sys_open dest_denied_os (c_str ''/s'') O_RDONLY 0"
  let ?b2 = "sys_open (snd ?b1) (c_str ''/d'') (O_WRONLY OR O_CREAT OR O_TRUNC) DEFAULT_FILE_MODE"
  let ?b3 = "sys_ioctl (snd ?b2) (fst ?b2) FICLONE (fst ?b1)"
  have B: "2 \<le> length ?B"
    "get_string_arg (?B ! 0) (PATH_MAX Linux) ''src'' = Inr ''/s''"
    "get_string_arg (?B ! 1) (PATH_MAX Linux) ''dest'' = Inr ''/d''"
    by (simp_all add: eval_defs)
  have Bo: "?b1 = (fst ?b1, snd ?b1)" "?b2 = (fst ?b2, snd ?b2)" "?b3 = (fst ?b3, snd ?b3)"
    by simp_all
  let ?c1 = "sys_open no_reflink_os (c_str ''/s'') O_RDONLY 0"
  let ?c2 = "sys_open (snd ?c1) (c_str ''/d'') (O_WRONLY OR O_CREAT OR O_TRUNC) DEFAULT_FILE_MODE"
  let ?c3 = "sys_ioctl (snd ?c2) (fst ?c2) FICLONE (fst ?c1)"
  have Co: "?c1 = (fst ?c1, snd ?c1)" "?c2 = (fst ?c2, snd ?c2)" "?c3 = (fst ?c3, snd ?c3)"
    by simp_all
  from linux_ficlone_step_order [OF A Ao] linux_ficlone_step_order [OF B Bo]
    linux_ficlone_step_order [OF B Co]
  show ?thesis by (simp add: eval_defs)
qed

section \<open>Descriptors are released (C9)\<close>

text \<open>
  Claim C9.  On the Linux variant the descriptor table after a clone call equals the table
  before it, for every argument list and every state of the system: every descriptor the
  call opened has been closed when it returns, on each of its exit paths.
\<close>

theorem linux_ficlone_closes_descriptors:
  "fds (snd (linux_ficlone args s)) = fds s"
proof (cases "length args < 2 \<or> isl (get_string_arg (args ! 0) (PATH_MAX Linux) ''src'')
     \<or> isl (get_string_arg (args ! 1) (PATH_MAX Linux) ''dest'')")
  case True
  from linux_ficlone_invalid [OF this] show ?thesis by simp
next
  case False
  then obtain src dest where a: "2 \<le> length args"
      "get_string_arg (args ! 0) (PATH_MAX Linux) ''src'' = Inr src"
      "get_string_arg (args ! 1) (PATH_MAX Linux) ''dest'' = Inr dest"
    by (cases "get_string_arg (args ! 0) (PATH_MAX Linux) ''src''";
        cases "get_string_arg (args ! 1) (PATH_MAX Linux) ''dest''") auto
  obtain src_fd s1 where o1: "sys_open s (c_str src) O_RDONLY 0 = (src_fd, s1)"
    by (cases "sys_open s (c_str src) O_RDONLY 0")
  show ?thesis
  proof (cases "src_fd < 0")
    case True
    from linux_ficlone_open_source_failed [OF a o1 True] sys_open_failed(2) [OF o1 True]
    show ?thesis by simp
  next
    case False
    then have p1: "0 \<le> src_fd" by simp
    note t1 = sys_open_ok(1,2) [OF o1 p1]
    obtain dest_fd s2 where
      o2: "sys_open s1 (c_str dest) (O_WRONLY OR O_CREAT OR O_TRUNC) DEFAULT_FILE_MODE
             = (dest_fd, s2)"
      by (cases "sys_open s1 (c_str dest) (O_WRONLY OR O_CREAT OR O_TRUNC) DEFAULT_FILE_MODE")
    show ?thesis
    proof (cases "dest_fd < 0")
      case True
      obtain r s3 where c: "sys_close s2 src_fd = (r, s3)" by (cases "sys_close s2 src_fd")
      have "fds s3 = fds s"
        using sys_close_frame(5) [OF c] sys_open_failed(2) [OF o2 True] t1
        by (auto simp: fun_eq_iff)
      with linux_ficlone_open_dest_failed [OF a o1 p1 o2 True] c show ?thesis by simp
    next
      case False
      then have p2: "0 \<le> dest_fd" by simp
      note t2 = sys_open_ok(1,2) [OF o2 p2]
      obtain result s3 where io: "sys_ioctl s2 dest_fd FICLONE src_fd = (result, s3)"
        by (cases "sys_ioctl s2 dest_fd FICLONE src_fd")
      obtain r1 s4 where c1: "sys_close s3 src_fd = (r1, s4)" by (cases "sys_close s3 src_fd")
      obtain r2 s5 where c2: "sys_close s4 dest_fd = (r2, s5)" by (cases "sys_close s4 dest_fd")
      have "fds s5 = ((fds s)(src_fd \<mapsto> c_str src, dest_fd \<mapsto> c_str dest))
                       (src_fd := None, dest_fd := None)"
        using sys_close_frame(5) [OF c2] sys_close_frame(5) [OF c1] sys_ioctl_frame(4) [OF io]
          t1 t2 by simp
      also have "\<dots> = fds s"
        using t1 t2 by (intro fd_table_restore) simp_all
      finally have f5: "fds s5 = fds s" .
      show ?thesis
      proof (cases "result = 0")
        case True
        from linux_ficlone_ioctl_ok [OF a o1 p1 o2 p2 io True] c1 c2 f5 show ?thesis by simp
      next
        case False
        obtain r3 s6 where u: "sys_unlink s5 (c_str dest) = (r3, s6)"
          by (cases "sys_unlink s5 (c_str dest)")
        from linux_ficlone_ioctl_failed [OF a o1 p1 o2 p2 io False] c1 c2 u
          sys_unlink_frame(4) [OF u] f5
        show ?thesis by simp
      qed
    qed
  qed
qed

section \<open>A destination that already exists (C10)\<close>

text \<open>
  Claim C10, as the code has it.  On the Linux variant a destination that exists is emptied
  by the open, and when the ioctl then fails the call never restores it: after the call the
  destination is absent if the unlink went through, and is an empty file if the unlink was
  refused.  On the macOS variant a destination that exists makes the call fail, after the
  single clonefile call, with every file as it was.
\<close>

theorem existing_destination_overwritten:
  "(2 \<le> length args \<and>
    get_string_arg (args ! 0) (PATH_MAX Linux) ''src'' = Inr src \<and>
    get_string_arg (args ! 1) (PATH_MAX Linux) ''dest'' = Inr dest \<and>
    sys_open s (c_str src) O_RDONLY 0 = (src_fd, s1) \<and> 0 \<le> src_fd \<and>
    sys_open s1 (c_str dest) (O_WRONLY OR O_CREAT OR O_TRUNC) DEFAULT_FILE_MODE = (dest_fd, s2) \<and>
    0 \<le> dest_fd \<and>
    sys_ioctl s2 dest_fd FICLONE src_fd = (result, s3) \<and> result \<noteq> 0 \<and>
    files s (c_str dest) = Some old \<longrightarrow>
      files s2 (c_str dest) = Some [] \<and>
      files (snd (linux_ficlone args s)) (c_str dest)
        = (if fails s (Sys_unlink (c_str dest)) = None then None else Some [])) \<and>
   (2 \<le> length args \<and>
    get_string_arg (args ! 0) (PATH_MAX Darwin) ''src'' = Inr dsrc \<and>
    get_string_arg (args ! 1) (PATH_MAX Darwin) ''dest'' = Inr ddest \<and>
    files s (c_str ddest) = Some old \<longrightarrow>
      fst (darwin_clonefile args s)
        = Thrown (throw_errno_error (strerror s) ''clonefile''
                    (errno (snd (darwin_clonefile args s)))) \<and>
      trace (snd (darwin_clonefile args s))
        = trace s @ [Sys_clonefile (c_str dsrc) (c_str ddest) 0] \<and>
      files (snd (darwin_clonefile args s)) = files s)"
proof -
  have 1: "files s2 (c_str dest) = Some [] \<and>
      files (snd (linux_ficlone args s)) (c_str dest)
        = (if fails s (Sys_unlink (c_str dest)) = None then None else Some [])"
    if a: "2 \<le> length args"
      "get_string_arg (args ! 0) (PATH_MAX Linux) ''src'' = Inr src"
      "get_string_arg (args ! 1) (PATH_MAX Linux) ''dest'' = Inr dest"
      "sys_open s (c_str src) O_RDONLY 0 = (src_fd, s1)" "0 \<le> src_fd"
      "sys_open s1 (c_str dest) (O_WRONLY OR O_CREAT OR O_TRUNC) DEFAULT_FILE_MODE = (dest_fd, s2)"
      "0 \<le> dest_fd"
      "sys_ioctl s2 dest_fd FICLONE src_fd = (result, s3)" "result \<noteq> 0"
    using linux_ficlone_ioctl_failed_state(2,3) [OF a] by simp
  have 2: "fst (darwin_clonefile args s)
        = Thrown (throw_errno_error (strerror s) ''clonefile''
                    (errno (snd (darwin_clonefile args s)))) \<and>
      trace (snd (darwin_clonefile args s))
        = trace s @ [Sys_clonefile (c_str dsrc) (c_str ddest) 0] \<and>
      files (snd (darwin_clonefile args s)) = files s"
    if a: "2 \<le> length args"
      "get_string_arg (args ! 0) (PATH_MAX Darwin) ''src'' = Inr dsrc"
      "get_string_arg (args ! 1) (PATH_MAX Darwin) ''dest'' = Inr ddest"
      and e: "files s (c_str ddest) = Some old"
  proof -
    from e have "files s (c_str ddest) \<noteq> None" by simp
    from darwin_clonefile_existing_dest [OF a this] show ?thesis by simp
  qed
  from 1 2 show ?thesis by blast
qed

theorem existing_destination_overwritten_witness:
  "files no_reflink_os ''/d'' = Some ''old'' \<and>
   0 \<le> fst (sys_open no_reflink_os ''/s'' O_RDONLY 0) \<and>
   0 \<le> fst (sys_open (snd (sys_open no_reflink_os ''/s'' O_RDONLY 0)) ''/d''
              (O_WRONLY OR O_CREAT OR O_TRUNC) DEFAULT_FILE_MODE) \<and>
   fst (sys_ioctl (snd (sys_open (snd (sys_open no_reflink_os ''/s'' O_RDONLY 0)) ''/d''
              (O_WRONLY OR O_CREAT OR O_TRUNC) DEFAULT_FILE_MODE)) 4 FICLONE 3) \<noteq> 0 \<and>
   files (snd (sys_open (snd (sys_open no_reflink_os ''/s'' O_RDONLY 0)) ''/d''
              (O_WRONLY OR O_CREAT OR O_TRUNC) DEFAULT_FILE_MODE)) ''/d'' = Some [] \<and>
   files (snd (linux_ficlone [JSString ''/s'', JSString ''/d''] no_reflink_os)) ''/d'' = None \<and>
   files proc_os ''/d'' = Some ''old'' \<and>
   darwin_clonefile [JSString ''/s'', JSString ''/d''] proc_os
     = (Thrown (throw_errno_error glibc_strerror ''clonefile'' EEXIST),
        proc_os\<lparr>errno := EEXIST, trace := [Sys_clonefile ''/s'' ''/d'' 0]\<rparr>)"
proof -
  let ?B = "[JSString ''/s'', JSString ''/d'']"
  let ?c1 = "sys_open no_reflink_os (c_str ''/s'') O_RDONLY 0"
  let ?c2 = "sys_open (snd ?c1) (c_str ''/d'') (O_WRONLY OR O_CREAT OR O_TRUNC) DEFAULT_FILE_MODE"
  let ?c3 = "sys_ioctl (snd ?c2) (fst ?c2) FICLONE (fst ?c1)"
  note existing_destination_overwritten
    [of ?B "''/s''" "''/d''" no_reflink_os "fst ?c1" "snd ?c1" "fst ?c2" "snd ?c2"
       "fst ?c3" "snd ?c3" "''old''" "''/s''" "''/d''"]
    existing_destination_overwritten
    [of ?B "''/s''" "''/d''" proc_os "fst ?c1" "snd ?c1" "fst ?c2" "snd ?c2"
       "fst ?c3" "snd ?c3" "''old''" "''/s''" "''/d''"]
  then show ?thesis by (simp add: eval_defs)
qed

theorem existing_destination_emptied_counterexample:
  "files cross_device_os ''/srv/b'' = Some ''precious'' \<and>
   fst (linux_ficlone [JSString ''/mnt/a'', JSString ''/srv/b''] cross_device_os)
     = Thrown (throw_errno_error glibc_strerror ''ioctl FICLONE'' EXDEV) \<and>
   trace (snd (linux_ficlone [JSString ''/mnt/a'', JSString ''/srv/b''] cross_device_os)) =
     [Sys_open ''/mnt/a'' O_RDONLY 0,
      Sys_open ''/srv/b'' (O_WRONLY OR O_CREAT OR O_TRUNC) DEFAULT_FILE_MODE,
      Sys_ioctl 2 FICLONE 1, Sys_close 1, Sys_close 2, Sys_unlink ''/srv/b''] \<and>
   files (snd (linux_ficlone [JSString ''/mnt/a'', JSString ''/srv/b''] cross_device_os))
     ''/srv/b'' = Some []"
  by (simp add: eval_defs)

end
